theory Spec2Isabelle
  imports Complex_Main
begin

section \<open>Python values and text primitives\<close>

text \<open>
  The response-evaluation pipeline of the interview API
  (\<^verbatim>\<open>app/services/nlp_scorer.py\<close>, \<^verbatim>\<open>app/api/interview.py\<close>,
  \<^verbatim>\<open>app/services/question_manager.py\<close>, \<^verbatim>\<open>app/services/feedback_generator.py\<close>)
  as HOL functions.

  Conventions of the embedding:
  \<^item> a Python \<^verbatim>\<open>str\<close> is a \<open>string\<close>; the character classes of
    \<^verbatim>\<open>str.split\<close>, \<^verbatim>\<open>str.strip\<close>, \<^verbatim>\<open>str.lower\<close> and of the regular expressions
    are given on ASCII;
  \<^item> a Python \<^verbatim>\<open>float\<close> is an exact rational (\<open>rat\<close>): rounding of binary
    floating point is not modelled, \<^verbatim>\<open>NaN\<close> and the infinities do not occur;
  \<^item> a value whose Python type is decided at run time (what \<^verbatim>\<open>json.loads\<close>
    returns, the entries of the score dictionaries) is a \<open>pyval\<close>;
  \<^item> a raised exception is the \<open>Inl\<close> of a sum type; where the message of an exception
    interpolates a run-time value, the exception carries the fixed part of the text.
\<close>

datatype pyval =
    PNone
  | PBool bool
  | PInt int
  | PFloat rat
  | PStr string
  | PList "pyval list"
  | PDict "(string \<times> pyval) list"

datatype py_exception =
    ValueError string
  | TypeError string
  | KeyError string
  | HTTPException nat string

type_synonym dict = "string \<rightharpoonup> pyval"

definition is_space :: "char \<Rightarrow> bool" where
  "is_space c = (let n = (of_char c :: nat) in (9 \<le> n \<and> n \<le> 13) \<or> (28 \<le> n \<and> n \<le> 32))"

definition is_digit :: "char \<Rightarrow> bool" where
  "is_digit c = (let n = (of_char c :: nat) in 48 \<le> n \<and> n \<le> 57)"

definition is_upper :: "char \<Rightarrow> bool" where
  "is_upper c = (let n = (of_char c :: nat) in 65 \<le> n \<and> n \<le> 90)"

definition is_lower :: "char \<Rightarrow> bool" where
  "is_lower c = (let n = (of_char c :: nat) in 97 \<le> n \<and> n \<le> 122)"

definition is_word_char :: "char \<Rightarrow> bool" where
  "is_word_char c = (is_digit c \<or> is_upper c \<or> is_lower c \<or> c = CHR ''_'')"

definition lower_char :: "char \<Rightarrow> char" where
  "lower_char c = (if is_upper c then char_of ((of_char c :: nat) + 32) else c)"

definition lower :: "string \<Rightarrow> string" where
  "lower s = map lower_char s"

text \<open>\<^verbatim>\<open>text.split()\<close>: the maximal runs of non-whitespace characters.\<close>

fun split_acc :: "string \<Rightarrow> string \<Rightarrow> string list" where
  "split_acc cur [] = (if cur = [] then [] else [cur])"
| "split_acc cur (c # cs) =
     (if is_space c
      then (if cur = [] then split_acc [] cs else cur # split_acc [] cs)
      else split_acc (cur @ [c]) cs)"

definition split_ws :: "string \<Rightarrow> string list" where
  "split_ws s = split_acc [] s"

definition strip :: "string \<Rightarrow> string" where
  "strip s = rev (dropWhile is_space (rev (dropWhile is_space s)))"

text \<open>\<^verbatim>\<open>sep.join(words)\<close>.\<close>

fun join :: "string \<Rightarrow> string list \<Rightarrow> string" where
  "join sep [] = []"
| "join sep [w] = w"
| "join sep (w # ws) = w @ sep @ join sep ws"

text \<open>\<^verbatim>\<open>re.split(r'[.!?]+', text)\<close>: the pieces between maximal runs of the three
  sentence terminators; \<open>d\<close> tells that the previous character was a terminator.\<close>

definition is_terminator :: "char \<Rightarrow> bool" where
  "is_terminator c = (c = CHR ''.'' \<or> c = CHR ''!'' \<or> c = CHR ''?'')"

fun re_split_acc :: "bool \<Rightarrow> string \<Rightarrow> string \<Rightarrow> string list" where
  "re_split_acc d cur [] = [cur]"
| "re_split_acc d cur (c # cs) =
     (if is_terminator c
      then (if d then re_split_acc True cur cs else cur # re_split_acc True [] cs)
      else re_split_acc False (cur @ [c]) cs)"

definition re_split_sentences :: "string \<Rightarrow> string list" where
  "re_split_sentences s = re_split_acc False [] s"

text \<open>\<^verbatim>\<open>word in sentence\<close> on strings: substring search.\<close>

fun starts_with :: "string \<Rightarrow> string \<Rightarrow> bool" where
  "starts_with s [] = True"
| "starts_with [] (w # ws) = False"
| "starts_with (c # cs) (w # ws) = (c = w \<and> starts_with cs ws)"

fun contains :: "string \<Rightarrow> string \<Rightarrow> bool" where
  "contains [] w = (w = [])"
| "contains (c # cs) w = (starts_with (c # cs) w \<or> contains cs w)"

subsection \<open>The built-ins \<^verbatim>\<open>int\<close>, \<^verbatim>\<open>bool\<close> and arithmetic on run-time values\<close>

definition py_trunc :: "rat \<Rightarrow> int" where
  "py_trunc r = (if 0 \<le> r then \<lfloor>r\<rfloor> else \<lceil>r\<rceil>)"

fun split_on :: "char \<Rightarrow> string \<Rightarrow> string \<Rightarrow> string list" where
  "split_on sep cur [] = [cur]"
| "split_on sep cur (c # cs) =
     (if c = sep then cur # split_on sep [] cs else split_on sep (cur @ [c]) cs)"

definition digits_value :: "string \<Rightarrow> nat" where
  "digits_value ds = foldl (\<lambda>acc c. 10 * acc + ((of_char c :: nat) - 48)) 0 ds"

text \<open>\<^verbatim>\<open>int(s)\<close> for a string: optional surrounding whitespace, an optional sign, then
  decimal digits in groups separated by single underscores.\<close>

definition int_of_digits :: "string \<Rightarrow> nat option" where
  "int_of_digits body =
     (let groups = split_on (CHR ''_'') [] body
      in if list_all (\<lambda>g. g \<noteq> [] \<and> list_all is_digit g) groups
         then Some (digits_value (concat groups)) else None)"

definition int_of_string :: "string \<Rightarrow> int option" where
  "int_of_string s =
     (case strip s of
        [] \<Rightarrow> None
      | c # cs \<Rightarrow>
          if c = CHR ''-'' then map_option (\<lambda>n. - int n) (int_of_digits cs)
          else if c = CHR ''+'' then map_option int (int_of_digits cs)
          else map_option int (int_of_digits (c # cs)))"

fun py_int :: "pyval \<Rightarrow> py_exception + int" where
  "py_int (PInt n) = Inr n"
| "py_int (PBool b) = Inr (if b then 1 else 0)"
| "py_int (PFloat r) = Inr (py_trunc r)"
| "py_int (PStr s) =
     (case int_of_string s of
        None \<Rightarrow> Inl (ValueError ''invalid literal for int() with base 10'')
      | Some n \<Rightarrow> Inr n)"
| "py_int v = Inl (TypeError ''int() argument must be a string, a bytes-like object or a real number'')"

text \<open>Truth value of an object in a condition (\<^verbatim>\<open>if x\<close>).\<close>

fun truthy :: "pyval \<Rightarrow> bool" where
  "truthy PNone = False"
| "truthy (PBool b) = b"
| "truthy (PInt n) = (n \<noteq> 0)"
| "truthy (PFloat r) = (r \<noteq> 0)"
| "truthy (PStr s) = (s \<noteq> [])"
| "truthy (PList xs) = (xs \<noteq> [])"
| "truthy (PDict kvs) = (kvs \<noteq> [])"

text \<open>The number a value stands for in \<^verbatim>\<open>+\<close>, \<^verbatim>\<open>-\<close>, \<^verbatim>\<open>/\<close>, \<^verbatim>\<open>max\<close> and \<^verbatim>\<open>min\<close> with
  a number; any other operand raises \<^verbatim>\<open>TypeError\<close>.\<close>

fun py_num :: "pyval \<Rightarrow> py_exception + rat" where
  "py_num (PInt n) = Inr (of_int n)"
| "py_num (PBool b) = Inr (if b then 1 else 0)"
| "py_num (PFloat r) = Inr r"
| "py_num v = Inl (TypeError ''unsupported operand type(s)'')"

text \<open>\<^verbatim>\<open>sum(scores)\<close>: left to right from 0.\<close>

fun py_sum_from :: "rat \<Rightarrow> pyval list \<Rightarrow> py_exception + rat" where
  "py_sum_from acc [] = Inr acc"
| "py_sum_from acc (v # vs) =
     (case py_num v of Inl e \<Rightarrow> Inl e | Inr x \<Rightarrow> py_sum_from (acc + x) vs)"

definition py_sum :: "pyval list \<Rightarrow> py_exception + rat" where
  "py_sum vs = py_sum_from 0 vs"

text \<open>\<^verbatim>\<open>d.get(key)\<close> and \<^verbatim>\<open>d.get(key, default)\<close>.\<close>

definition dict_get :: "dict \<Rightarrow> string \<Rightarrow> pyval" where
  "dict_get d k = (case d k of None \<Rightarrow> PNone | Some v \<Rightarrow> v)"

definition dict_get_default :: "dict \<Rightarrow> string \<Rightarrow> pyval \<Rightarrow> pyval" where
  "dict_get_default d k dflt = (case d k of None \<Rightarrow> dflt | Some v \<Rightarrow> v)"

section \<open>Scoring oracle adapter (\<^verbatim>\<open>NLPScorer._get_ai_scores\<close>)\<close>

text \<open>\<^verbatim>\<open>_get_fallback_scores(text, question_type)\<close>.\<close>

definition get_fallback_scores :: "string \<Rightarrow> string \<Rightarrow> dict" where
  "get_fallback_scores text question_type =
     (let word_count = int (length (split_ws text));
          base_score = min 85 (max 40 (word_count * 2))
      in [''content_relevance'' \<mapsto> PInt base_score,
          ''communication_clarity'' \<mapsto> PInt (base_score - 5),
          ''structure_organization'' \<mapsto> PInt (base_score - 10),
          ''technical_accuracy'' \<mapsto>
             (if question_type = ''technical'' then PInt base_score else PNone),
          ''strengths'' \<mapsto> PList [PStr ''Response provided'', PStr ''Attempted to answer'',
                                  PStr ''Used appropriate language''],
          ''weaknesses'' \<mapsto> PList [PStr ''Could be more detailed'',
                                   PStr ''Could improve structure'', PStr ''Could add examples''],
          ''suggestions'' \<mapsto> PList [PStr ''Provide more specific examples'',
                                    PStr ''Organize response better'',
                                    PStr ''Expand on key points'']])"

text \<open>
  What \<^verbatim>\<open>re.search(r'\{.*\}', response, re.DOTALL)\<close> followed by \<^verbatim>\<open>json.loads\<close> makes of
  the reply text: no brace-delimited part, a part that is not JSON (the call raises), or
  the loaded object.
\<close>

datatype json_match = NoMatch | LoadsError | Loaded dict

text \<open>The validation loop of \<^verbatim>\<open>_parse_ai_response\<close> over its three keys.\<close>

fun validate_scores :: "string list \<Rightarrow> dict \<Rightarrow> py_exception + dict" where
  "validate_scores [] result = Inr result"
| "validate_scores (key # keys) result =
     (case result key of
        None \<Rightarrow> validate_scores keys result
      | Some v \<Rightarrow>
          (case py_int v of
             Inl e \<Rightarrow> Inl e
           | Inr n \<Rightarrow> validate_scores keys (result(key \<mapsto> PInt (max 0 (min 100 n))))))"

definition validated_keys :: "string list" where
  "validated_keys = [''content_relevance'', ''communication_clarity'', ''structure_organization'']"

definition parse_ai_response :: "json_match \<Rightarrow> dict" where
  "parse_ai_response m =
     (case m of
        Loaded result \<Rightarrow>
          (case validate_scores validated_keys result of
             Inr validated \<Rightarrow> validated
           | Inl e \<Rightarrow> get_fallback_scores '''' ''general'')
      | LoadsError \<Rightarrow> get_fallback_scores '''' ''general''
      | NoMatch \<Rightarrow> get_fallback_scores '''' ''general'')"

text \<open>The chat-completion request either raises or returns a reply text.\<close>

datatype oracle_reply = ServiceError | Reply json_match

definition get_ai_scores :: "oracle_reply \<Rightarrow> string \<Rightarrow> string \<Rightarrow> dict" where
  "get_ai_scores reply text question_type =
     (case reply of
        Reply m \<Rightarrow> parse_ai_response m
      | ServiceError \<Rightarrow> get_fallback_scores text question_type)"

section \<open>Metrics analyzer\<close>

text \<open>
  The scorer object: \<^verbatim>\<open>self.nlp\<close> (a tokenizer, or \<^verbatim>\<open>None\<close>), the filler-word set and
  the two confidence lexicons. A token of the tokenizer has its text and the flag
  \<^verbatim>\<open>is_alpha\<close>. The client of the external service is represented by the replies it
  gives (\<open>services\<close> below).
\<close>

record token =
  tok_text :: string
  is_alpha :: bool

record nlp_scorer =
  nlp :: "(string \<Rightarrow> token list) option"
  filler_words :: "string list"
  confidence_positive :: "string list"
  confidence_negative :: "string list"

text \<open>\<^verbatim>\<open>NLPScorer.__init__\<close>, with \<^verbatim>\<open>settings.openai_api_key\<close> as argument;
  \<open>NLPScorer_new\<close> is the object it sets up.\<close>

definition NLPScorer_new :: nlp_scorer where
  "NLPScorer_new =
     \<lparr> nlp = None,
       filler_words = [''um'', ''uh'', ''like'', ''you know'', ''so'', ''well'',
          ''actually'', ''basically'', ''literally'', ''obviously'', ''definitely'',
          ''totally'', ''really'', ''very'', ''quite'', ''sort of'', ''kind of''],
       confidence_positive = [''confident'', ''certain'', ''sure'', ''definitely'',
          ''absolutely'', ''clearly'', ''obviously'', ''undoubtedly'', ''precisely''],
       confidence_negative = [''maybe'', ''perhaps'', ''possibly'', ''might'',
          ''could be'', ''not sure'', ''uncertain'', ''unclear'', ''confused''] \<rparr>"

definition NLPScorer_init :: "string \<Rightarrow> py_exception + nlp_scorer" where
  "NLPScorer_init api_key =
     (if api_key = [] then Inl (ValueError ''OpenAI API key is required for NLP scoring'')
      else Inr NLPScorer_new)"

text \<open>\<^verbatim>\<open>_preprocess_text\<close>: the substitution deletes every character outside
  \<^verbatim>\<open>[\w\s\.\,\!\?\;\:\-\(\)]\<close>.\<close>

definition kept_char :: "char \<Rightarrow> bool" where
  "kept_char c = (is_word_char c \<or> is_space c \<or> c \<in> set ''.,!?;:-()'')"

definition preprocess_text :: "string \<Rightarrow> string" where
  "preprocess_text text = strip (filter kept_char (join '' '' (split_ws text)))"

text \<open>The sentence list used by \<^verbatim>\<open>_analyze_basic_metrics\<close> and \<^verbatim>\<open>_analyze_structure\<close>.\<close>

definition sentences_of :: "string \<Rightarrow> string list" where
  "sentences_of text = map strip (filter (\<lambda>s. strip s \<noteq> []) (re_split_sentences text))"

definition simple_flesch_reading_ease :: "string \<Rightarrow> rat" where
  "simple_flesch_reading_ease text =
     (let words = length (split_ws text);
          sentences = length (re_split_sentences text)
      in if sentences = 0 \<or> words = 0 then 50
         else let avg_sentence_length = of_nat words / of_nat sentences
              in max 0 (min 100 (206835 / 1000 - (1015 / 1000) * avg_sentence_length)))"

definition simple_flesch_kincaid_grade :: "string \<Rightarrow> rat" where
  "simple_flesch_kincaid_grade text =
     (let words = length (split_ws text);
          sentences = length (re_split_sentences text)
      in if sentences = 0 \<or> words = 0 then 8
         else let avg_sentence_length = of_nat words / of_nat sentences
              in max 0 ((39 / 100) * avg_sentence_length + 118 / 10 - 1559 / 100))"

record basic_metrics =
  bm_word_count :: nat
  bm_sentence_count :: nat
  bm_unique_words :: nat
  bm_avg_words_per_sentence :: rat
  bm_filler_words_count :: nat
  bm_filler_words_ratio :: rat
  bm_readability_score :: rat
  bm_grade_level :: rat

definition analyze_basic_metrics :: "nlp_scorer \<Rightarrow> string \<Rightarrow> basic_metrics" where
  "analyze_basic_metrics self text =
     (let words = split_ws text;
          sentences = sentences_of text;
          filler_count = length (filter (\<lambda>word. lower word \<in> set (filler_words self)) words)
      in \<lparr> bm_word_count = length words,
           bm_sentence_count = length sentences,
           bm_unique_words = length (remdups (map lower words)),
           bm_avg_words_per_sentence = of_nat (length words) / of_nat (max (length sentences) 1),
           bm_filler_words_count = filler_count,
           bm_filler_words_ratio = of_nat filler_count / of_nat (max (length words) 1),
           bm_readability_score = simple_flesch_reading_ease text,
           bm_grade_level = simple_flesch_kincaid_grade text \<rparr>)"

record sentiment_analysis =
  sa_sentiment_score :: rat
  sa_emotional_tone :: string
  sa_positive_indicators :: "nat option"
  sa_negative_indicators :: "nat option"

definition positive_words :: "string list" where
  "positive_words = [''good'', ''great'', ''excellent'', ''successful'', ''achieved'',
                     ''accomplished'', ''effective'', ''efficient'', ''improved'']"

definition negative_words :: "string list" where
  "negative_words = [''bad'', ''poor'', ''failed'', ''difficult'', ''challenging'',
                     ''problem'', ''issue'', ''mistake'', ''error'']"

text \<open>\<^verbatim>\<open>_analyze_sentiment\<close>: without a tokenizer the neutral result is returned at once.\<close>

definition analyze_sentiment :: "nlp_scorer \<Rightarrow> string \<Rightarrow> sentiment_analysis" where
  "analyze_sentiment self text =
     (case nlp self of
        None \<Rightarrow> \<lparr> sa_sentiment_score = 0, sa_emotional_tone = ''neutral'',
                   sa_positive_indicators = None, sa_negative_indicators = None \<rparr>
      | Some tokenizer \<Rightarrow>
          (let doc = tokenizer text;
               pos_count = length (filter (\<lambda>t. lower (tok_text t) \<in> set positive_words) doc);
               neg_count = length (filter (\<lambda>t. lower (tok_text t) \<in> set negative_words) doc);
               total_words = length (filter is_alpha doc);
               sentiment_score = (of_nat pos_count - of_nat neg_count) / of_nat (max total_words 1);
               tone = (if sentiment_score > 1 / 10 then ''positive''
                       else if sentiment_score < - (1 / 10) then ''negative''
                       else ''neutral'')
           in \<lparr> sa_sentiment_score = max (- 1) (min 1 sentiment_score),
                sa_emotional_tone = tone,
                sa_positive_indicators = Some pos_count,
                sa_negative_indicators = Some neg_count \<rparr>))"

record structure_analysis =
  st_structure_score :: int
  st_has_introduction :: bool
  st_has_body :: bool
  st_has_conclusion :: bool
  st_sentence_variety :: nat

definition has_cue :: "string list \<Rightarrow> string list \<Rightarrow> bool" where
  "has_cue cues sentences =
     list_ex (\<lambda>sentence. list_ex (\<lambda>word. contains (lower sentence) word) cues) sentences"

definition analyze_structure :: "string \<Rightarrow> structure_analysis" where
  "analyze_structure text =
     (let sentences = sentences_of text;
          has_intro = has_cue [''first'', ''initially'', ''to begin'', ''starting'']
                        (take 2 sentences);
          has_body = has_cue [''then'', ''next'', ''after'', ''following'', ''subsequently'']
                        sentences;
          has_conclusion = has_cue [''finally'', ''in conclusion'', ''to summarize'', ''overall'']
                        (drop (length sentences - 2) sentences);
          structure_score = (if has_intro then 30 else 0) + (if has_body then 40 else 0)
                          + (if has_conclusion then 30 else 0)
                          + (if length sentences \<ge> 3 then 10 else 0)
      in \<lparr> st_structure_score = min 100 structure_score,
           st_has_introduction = has_intro,
           st_has_body = has_body,
           st_has_conclusion = has_conclusion,
           st_sentence_variety = length (remdups (map (\<lambda>s. length (split_ws s)) sentences)) \<rparr>)"

record confidence_analysis =
  ca_confidence_score :: rat
  ca_positive_indicators :: nat
  ca_negative_indicators :: nat
  ca_confidence_level :: string

definition analyze_confidence :: "nlp_scorer \<Rightarrow> string \<Rightarrow> confidence_analysis" where
  "analyze_confidence self text =
     (let text_lower = lower text;
          positive_confidence = length (filter (contains text_lower) (confidence_positive self));
          negative_confidence = length (filter (contains text_lower) (confidence_negative self));
          total_indicators = positive_confidence + negative_confidence;
          confidence_score = (if total_indicators = 0 then 1 / 2
                              else of_nat positive_confidence / of_nat total_indicators)
      in \<lparr> ca_confidence_score = confidence_score,
           ca_positive_indicators = positive_confidence,
           ca_negative_indicators = negative_confidence,
           ca_confidence_level = (if confidence_score > 7 / 10 then ''high''
                                  else if confidence_score > 3 / 10 then ''medium''
                                  else ''low'') \<rparr>)"

section \<open>Score aggregator (\<^verbatim>\<open>NLPScorer._calculate_final_scores\<close>)\<close>

record final_scores =
  overall_score :: int
  content_relevance_score :: int
  communication_clarity_score :: int
  structure_organization_score :: int
  technical_accuracy_score :: "int option"
  sentiment_score :: rat
  confidence_indicators :: nat
  filler_words_count :: nat
  word_count :: nat
  unique_words_count :: nat

text \<open>The list \<^verbatim>\<open>scores\<close> whose mean is the overall score: the technical value joins
  it when it is not \<^verbatim>\<open>None\<close> and the question type is \<^verbatim>\<open>'technical'\<close>.\<close>

definition mean_components :: "pyval \<Rightarrow> rat \<Rightarrow> rat \<Rightarrow> pyval \<Rightarrow> string \<Rightarrow> pyval list" where
  "mean_components content_score clarity_score structure_score technical_score question_type =
     [content_score, PFloat clarity_score, PFloat structure_score]
     @ (if technical_score \<noteq> PNone \<and> question_type = ''technical'' then [technical_score]
        else [])"

definition calculate_final_scores ::
  "basic_metrics \<Rightarrow> sentiment_analysis \<Rightarrow> structure_analysis \<Rightarrow> confidence_analysis \<Rightarrow>
   dict \<Rightarrow> string \<Rightarrow> py_exception + final_scores" where
  "calculate_final_scores basic sentiment structure confidence ai_scores question_type =
     (let content_score = dict_get_default ai_scores ''content_relevance'' (PInt 70);
          clarity_ai = dict_get_default ai_scores ''communication_clarity'' (PInt 70);
          structure_ai = dict_get_default ai_scores ''structure_organization'' (PInt 70);
          technical_score = dict_get ai_scores ''technical_accuracy'';
          filler_penalty = min 20 (bm_filler_words_ratio basic * 100);
          structure_bonus = (of_int (st_structure_score structure) - 70) * (3 / 10)
      in case py_num clarity_ai of
           Inl e \<Rightarrow> Inl e
         | Inr c \<Rightarrow>
        (case py_num structure_ai of
           Inl e \<Rightarrow> Inl e
         | Inr s \<Rightarrow>
        (let clarity_score = max 0 (c - filler_penalty);
             structure_score = max 0 (min 100 (s + structure_bonus));
             scores = mean_components content_score clarity_score structure_score
                        technical_score question_type
         in case py_sum scores of
              Inl e \<Rightarrow> Inl e
            | Inr total_sum \<Rightarrow>
           (case py_int content_score of
              Inl e \<Rightarrow> Inl e
            | Inr content_int \<Rightarrow>
           (case (if truthy technical_score then map_sum id Some (py_int technical_score)
                  else Inr None) of
              Inl e \<Rightarrow> Inl e
            | Inr technical_int \<Rightarrow>
                Inr \<lparr> overall_score = py_trunc (total_sum / of_nat (length scores)),
                      content_relevance_score = content_int,
                      communication_clarity_score = py_trunc clarity_score,
                      structure_organization_score = py_trunc structure_score,
                      technical_accuracy_score = technical_int,
                      sentiment_score = sa_sentiment_score sentiment,
                      confidence_indicators = ca_positive_indicators confidence,
                      filler_words_count = bm_filler_words_count basic,
                      word_count = bm_word_count basic,
                      unique_words_count = bm_unique_words basic \<rparr>)))))"

section \<open>Feedback of the scorer (\<^verbatim>\<open>NLPScorer._generate_feedback\<close>)\<close>

text \<open>The second request to the external service either raises or returns a narrative.\<close>

datatype narrative_reply = NarrativeError | Narrative string

definition generate_fallback_feedback :: "final_scores \<Rightarrow> basic_metrics \<Rightarrow> string" where
  "generate_fallback_feedback scores metrics =
     (let score = overall_score scores
      in if score \<ge> 80
         then ''Excellent response! You demonstrated strong communication skills and provided relevant content.''
         else if score \<ge> 60
         then ''Good response with room for improvement. Consider adding more specific examples and improving organization.''
         else ''Your response shows effort, but could benefit from better structure and more detailed content.'')"

definition generate_improvement_tips :: "final_scores \<Rightarrow> basic_metrics \<Rightarrow> string" where
  "generate_improvement_tips scores metrics =
     (let tips =
            (if communication_clarity_score scores < 70
             then [''Practice speaking more clearly and reduce filler words''] else [])
          @ (if structure_organization_score scores < 70
             then [''Use the STAR method (Situation, Task, Action, Result) to structure your responses'']
             else [])
          @ (if bm_word_count metrics < 50
             then [''Provide more detailed responses with specific examples''] else [])
          @ (if bm_filler_words_count metrics > 5
             then [''Practice reducing filler words like 'um', 'uh', and 'like'' @ [CHR 0x27]]
             else [])
      in join ''; '' (if tips = []
                      then [''Continue practicing to maintain your strong performance'']
                      else tips))"

definition generate_feedback ::
  "narrative_reply \<Rightarrow> final_scores \<Rightarrow> basic_metrics \<Rightarrow> dict" where
  "generate_feedback reply scores metrics =
     (let detailed_feedback =
            (case reply of
               Narrative content \<Rightarrow> content
             | NarrativeError \<Rightarrow> generate_fallback_feedback scores metrics)
      in [''detailed_feedback'' \<mapsto> PStr detailed_feedback,
          ''improvement_tips'' \<mapsto> PStr (generate_improvement_tips scores metrics)])"

section \<open>The scorer (\<^verbatim>\<open>NLPScorer.score_response\<close>)\<close>

record metrics =
  m_basic :: basic_metrics
  m_sentiment :: sentiment_analysis
  m_structure :: structure_analysis
  m_confidence :: confidence_analysis

record scoring_result =
  scores :: final_scores
  feedback :: dict
  metrics :: "metrics option"

text \<open>What the external service answers to the two requests of one evaluation.\<close>

record services =
  scoring_reply :: oracle_reply
  feedback_reply :: narrative_reply

definition create_empty_score :: scoring_result where
  "create_empty_score =
     \<lparr> scores = \<lparr> overall_score = 0,
                  content_relevance_score = 0,
                  communication_clarity_score = 0,
                  structure_organization_score = 0,
                  technical_accuracy_score = None,
                  sentiment_score = 0,
                  confidence_indicators = 0,
                  filler_words_count = 0,
                  word_count = 0,
                  unique_words_count = 0 \<rparr>,
       feedback = [''detailed_feedback'' \<mapsto> PStr ''No response provided for analysis.'',
                   ''improvement_tips'' \<mapsto>
                      PStr ''Please provide a response to receive feedback.''],
       metrics = None \<rparr>"

definition score_response ::
  "nlp_scorer \<Rightarrow> services \<Rightarrow> string \<Rightarrow> string \<Rightarrow> string \<Rightarrow> py_exception + scoring_result" where
  "score_response self svc text question question_type =
     (if text = [] \<or> strip text = [] then Inr create_empty_score
      else
        (let processed_text = preprocess_text text;
             basic_metrics = analyze_basic_metrics self processed_text;
             sentiment_analysis = analyze_sentiment self processed_text;
             structure_analysis = analyze_structure processed_text;
             confidence_analysis = analyze_confidence self processed_text;
             ai_scores = get_ai_scores (scoring_reply svc) processed_text question_type
         in case calculate_final_scores basic_metrics sentiment_analysis structure_analysis
                   confidence_analysis ai_scores question_type of
              Inl e \<Rightarrow> Inl e
            | Inr final_scores \<Rightarrow>
                Inr \<lparr> scores = final_scores,
                      feedback = generate_feedback (feedback_reply svc) final_scores basic_metrics,
                      metrics = Some \<lparr> m_basic = basic_metrics,
                                       m_sentiment = sentiment_analysis,
                                       m_structure = structure_analysis,
                                       m_confidence = confidence_analysis \<rparr> \<rparr>))"

section \<open>Persistent state\<close>

text \<open>
  The tables \<^verbatim>\<open>interview_responses\<close>, \<^verbatim>\<open>response_scores\<close> and \<^verbatim>\<open>questions\<close>
  (\<^verbatim>\<open>app/models\<close>), with the columns the pipeline reads or writes. Queries, \<^verbatim>\<open>add\<close> and
  \<^verbatim>\<open>commit\<close> of the session are taken to succeed and to store the values assigned; the
  column \<^verbatim>\<open>error_message\<close>, which receives \<^verbatim>\<open>str(e)\<close>, holds the exception itself.
\<close>

record interview_response =
  user_id :: nat
  question_id :: nat
  original_text :: "string option"
  processed_text :: "string option"
  audio_file_path :: "string option"
  response_duration_seconds :: "rat option"
  transcription_confidence :: "rat option"
  processing_time_ms :: "int option"
  status :: string
  error_message :: "py_exception option"
  processed_at :: "rat option"

record response_score =
  rs_response_id :: nat
  rs_overall_score :: int
  rs_content_relevance_score :: int
  rs_communication_clarity_score :: int
  rs_structure_organization_score :: int
  rs_technical_accuracy_score :: "int option"
  rs_sentiment_score :: rat
  rs_confidence_indicators :: nat
  rs_filler_words_count :: nat
  rs_word_count :: nat
  rs_unique_words_count :: nat
  rs_strengths :: pyval
  rs_weaknesses :: pyval
  rs_suggestions :: pyval
  rs_detailed_feedback :: pyval
  rs_improvement_tips :: pyval
  rs_scoring_model_version :: string

record question =
  title :: string
  content :: string
  question_type :: string
  is_active :: bool
  usage_count :: int
  average_score :: "int option"

record database =
  responses :: "nat \<rightharpoonup> interview_response"
  next_response_id :: nat
  response_scores :: "response_score list"
  questions :: "nat \<rightharpoonup> question"



subsection \<open>\<^verbatim>\<open>QuestionManager\<close>\<close>




subsection \<open>Validators (\<^verbatim>\<open>app/utils/validators.py\<close>)\<close>





section \<open>Transcription adapter (\<^verbatim>\<open>app/services/audio_processor.py\<close>)\<close>






section \<open>Submission endpoints and background tasks (\<^verbatim>\<open>app/api/interview.py\<close>)\<close>




text \<open>\<^verbatim>\<open>d[key]\<close>.\<close>

definition dict_item :: "dict \<Rightarrow> string \<Rightarrow> py_exception + pyval" where
  "dict_item d k = (case d k of None \<Rightarrow> Inl (KeyError k) | Some v \<Rightarrow> Inr v)"

text \<open>The \<^verbatim>\<open>ResponseScore(...)\<close> row built from the scoring result.\<close>

definition make_score :: "nat \<Rightarrow> scoring_result \<Rightarrow> py_exception + response_score" where
  "make_score response_id scoring_result =
     (case dict_item (feedback scoring_result) ''detailed_feedback'' of
        Inl e \<Rightarrow> Inl e
      | Inr detailed \<Rightarrow>
     (case dict_item (feedback scoring_result) ''improvement_tips'' of
        Inl e \<Rightarrow> Inl e
      | Inr tips \<Rightarrow>
          Inr \<lparr> rs_response_id = response_id,
                rs_overall_score = overall_score (scores scoring_result),
                rs_content_relevance_score = content_relevance_score (scores scoring_result),
                rs_communication_clarity_score =
                  communication_clarity_score (scores scoring_result),
                rs_structure_organization_score =
                  structure_organization_score (scores scoring_result),
                rs_technical_accuracy_score = technical_accuracy_score (scores scoring_result),
                rs_sentiment_score = sentiment_score (scores scoring_result),
                rs_confidence_indicators = confidence_indicators (scores scoring_result),
                rs_filler_words_count = filler_words_count (scores scoring_result),
                rs_word_count = word_count (scores scoring_result),
                rs_unique_words_count = unique_words_count (scores scoring_result),
                rs_strengths = dict_get_default (feedback scoring_result) ''strengths'' (PList []),
                rs_weaknesses = dict_get_default (feedback scoring_result) ''weaknesses'' (PList []),
                rs_suggestions =
                  dict_get_default (feedback scoring_result) ''suggestions'' (PList []),
                rs_detailed_feedback = detailed,
                rs_improvement_tips = tips,
                rs_scoring_model_version = ''nlp_v1.0'' \<rparr>))"






section \<open>Feedback synthesizer (\<^verbatim>\<open>FeedbackGenerator._identify_strengths\<close>)\<close>

definition identify_strengths :: "response_score \<Rightarrow> string \<Rightarrow> string \<Rightarrow> string list" where
  "identify_strengths score text qtype =
     (let strengths =
            (if rs_content_relevance_score score \<ge> 80
             then [''Excellent content relevance - directly addressed the question'']
             else if rs_content_relevance_score score \<ge> 70
             then [''Good content relevance - mostly addressed the question'']
             else [])
          @ (if rs_communication_clarity_score score \<ge> 80
             then [''Clear and articulate communication'']
             else if rs_communication_clarity_score score \<ge> 70
             then [''Generally clear communication'']
             else [])
          @ (if rs_structure_organization_score score \<ge> 80
             then [''Well-organized and structured response'']
             else if rs_structure_organization_score score \<ge> 70
             then [''Good response structure'']
             else [])
          @ (case rs_technical_accuracy_score score of
               None \<Rightarrow> []
             | Some t \<Rightarrow>
                 if t \<noteq> 0 \<and> t \<ge> 80 then [''Strong technical accuracy and knowledge'']
                 else if t \<noteq> 0 \<and> t \<ge> 70 then [''Good technical understanding'']
                 else [])
          @ (if rs_word_count score \<noteq> 0 \<and> rs_word_count score \<ge> 100
             then [''Provided detailed and comprehensive response''] else [])
          @ (if rs_confidence_indicators score \<noteq> 0 \<and> rs_confidence_indicators score \<ge> 3
             then [''Demonstrated confidence in responses''] else [])
          @ (if rs_sentiment_score score \<noteq> 0 \<and> rs_sentiment_score score > 3 / 10
             then [''Positive and enthusiastic tone''] else [])
          @ (if rs_word_count score \<noteq> 0 \<and> rs_unique_words_count score \<noteq> 0 \<and>
                (of_nat (rs_unique_words_count score) :: rat) / of_nat (rs_word_count score) > 7 / 10
             then [''Rich vocabulary and varied expression''] else [])
      in take 5 (if strengths = []
                 then [''Attempted to provide a response'']
                      @ (if rs_word_count score \<noteq> 0 \<and> rs_word_count score > 20
                         then [''Provided a substantive answer''] else [])
                 else strengths))"

section \<open>Observations on a run\<close>








text \<open>A reply that \<^verbatim>\<open>_parse_ai_response\<close> cannot turn into scores: no JSON object in it,
  or \<^verbatim>\<open>int()\<close> raises on one of the validated entries.\<close>

definition unparseable :: "json_match \<Rightarrow> bool" where
  "unparseable m =
     (case m of
        NoMatch \<Rightarrow> True
      | LoadsError \<Rightarrow> True
      | Loaded result \<Rightarrow> isl (validate_scores validated_keys result))"

text \<open>An entry of the judgment that went through the validation loop, or was never there.\<close>

definition score_entry_ok :: "pyval option \<Rightarrow> bool" where
  "score_entry_ok entry =
     (case entry of
        None \<Rightarrow> True
      | Some (PInt n) \<Rightarrow> 0 \<le> n \<and> n \<le> 100
      | Some v \<Rightarrow> False)"


section \<open>The rules in the words of the specification\<close>

text \<open>The spec's \<^verbatim>\<open>clamp(lo, x, hi)\<close>.\<close>

definition spec_clamp :: "int \<Rightarrow> int \<Rightarrow> int \<Rightarrow> int" where
  "spec_clamp lo x hi = (if x < lo then lo else if x > hi then hi else x)"

text \<open>The sentiment heuristic in the spec's words: occurrences of the positive and of the
  negative words among the words of the text, their difference divided by the number of
  words, clamped to \<open>[-1, 1]\<close>.\<close>

definition spec_sentiment :: "string \<Rightarrow> rat" where
  "spec_sentiment text =
     (let ws = map lower (split_ws text);
          pos = length (filter (\<lambda>w. w \<in> set positive_words) ws);
          neg = length (filter (\<lambda>w. w \<in> set negative_words) ws)
      in max (- 1) (min 1 ((of_nat pos - of_nat neg) / of_nat (max (length ws) 1))))"





section \<open>Sample data\<close>



definition sample_answer :: string where
  "sample_answer = ''I led a team of five engineers first. Then we migrated the billing service to a new platform. Finally we measured latency and error rates overall and shared the results widely.''"


definition sample_services :: services where
  "sample_services = \<lparr> scoring_reply = ServiceError, feedback_reply = NarrativeError \<rparr>"


text \<open>A tokenizer for the examples: one alphabetic token for each word.\<close>

definition word_tokenizer :: "string \<Rightarrow> token list" where
  "word_tokenizer text = map (\<lambda>w. \<lparr> tok_text = w, is_alpha = True \<rparr>) (split_ws text)"





section \<open>Running average of a question\<close>







section \<open>Fallback judgment\<close>

lemma fallback_base: "min 85 (max 40 (n * 2)) = spec_clamp 40 (n * 2) 85" for n :: int
  by (simp add: spec_clamp_def)

lemma parse_unparseable:
  "unparseable m \<Longrightarrow> parse_ai_response m = get_fallback_scores '''' ''general''"
  by (cases m) (auto simp: unparseable_def parse_ai_response_def split: sum.splits)

lemma split_ws_empty: "split_ws '''' = []" by (simp add: split_ws_def)

text \<open>
  C2 (as amended). When the request to the oracle raises, the fallback judgment is computed
  from the text given to the adapter: base \<^verbatim>\<open>clamp(40, word_count * 2, 85)\<close>, clarity
  base - 5, structure base - 10, technical base for a technical question and \<^verbatim>\<open>None\<close>
  otherwise. When the reply cannot be parsed, the fallback is computed from the empty
  text and the type \<^verbatim>\<open>'general'\<close>: 40, 35, 30 and no technical value, whatever the
  text and the question type.
\<close>

theorem fallback_judgment_on_failure:
  assumes "unparseable m"
  shows "(let base = spec_clamp 40 (int (length (split_ws text)) * 2) 85;
              judgment = get_ai_scores ServiceError text qtype
          in judgment ''content_relevance'' = Some (PInt base) \<and>
             judgment ''communication_clarity'' = Some (PInt (base - 5)) \<and>
             judgment ''structure_organization'' = Some (PInt (base - 10)) \<and>
             judgment ''technical_accuracy'' =
               Some (if qtype = ''technical'' then PInt base else PNone)) \<and>
         (let judgment = get_ai_scores (Reply m) text qtype
          in judgment ''content_relevance'' = Some (PInt 40) \<and>
             judgment ''communication_clarity'' = Some (PInt 35) \<and>
             judgment ''structure_organization'' = Some (PInt 30) \<and>
             judgment ''technical_accuracy'' = Some PNone)"
proof -
  have a: "get_ai_scores ServiceError text qtype = get_fallback_scores text qtype"
    by (simp add: get_ai_scores_def)
  have b: "get_ai_scores (Reply m) text qtype = get_fallback_scores '''' ''general''"
    using assms by (simp add: get_ai_scores_def parse_unparseable)
  show ?thesis
    unfolding a b
    by (simp add: get_fallback_scores_def Let_def split_ws_empty fallback_base [symmetric])
qed

theorem fallback_judgment_on_failure_witness:
  "unparseable NoMatch \<and>
   get_ai_scores ServiceError sample_answer ''technical'' ''content_relevance'' = Some (PInt 62) \<and>
   get_ai_scores ServiceError sample_answer ''technical'' ''technical_accuracy'' = Some (PInt 62) \<and>
   get_ai_scores (Reply NoMatch) sample_answer ''technical'' ''content_relevance'' = Some (PInt 40) \<and>
   get_ai_scores (Reply NoMatch) sample_answer ''technical'' ''technical_accuracy'' = Some PNone"
proof -
  have u: "unparseable NoMatch" by (simp add: unparseable_def)
  have n: "int (length (split_ws sample_answer)) = 31" by code_simp
  show ?thesis
    using u fallback_judgment_on_failure [OF u, of sample_answer "''technical''"]
    by (simp add: Let_def n spec_clamp_def)
qed

text \<open>C2 as stated fails for an unparseable reply: for a technical question and an
  answer of 31 words the base is 40 and there is no technical value, not 62.\<close>

theorem unparseable_reply_ignores_text_counterexample:
  "unparseable NoMatch \<and>
   get_ai_scores (Reply NoMatch) sample_answer ''technical'' ''content_relevance''
     \<noteq> Some (PInt (spec_clamp 40 (int (length (split_ws sample_answer)) * 2) 85)) \<and>
   get_ai_scores (Reply NoMatch) sample_answer ''technical'' ''technical_accuracy''
     \<noteq> Some (PInt (spec_clamp 40 (int (length (split_ws sample_answer)) * 2) 85))"
proof -
  have n: "int (length (split_ws sample_answer)) = 31" by code_simp
  show ?thesis
    by (simp add: n unparseable_def spec_clamp_def get_ai_scores_def parse_ai_response_def
          get_fallback_scores_def split_ws_empty)
qed

section \<open>Sentiment\<close>

lemma NLPScorer_init_nlp: "NLPScorer_init key = Inr self \<Longrightarrow> nlp self = None"
  by (auto simp: NLPScorer_init_def NLPScorer_new_def split: if_splits)

lemma analyze_sentiment_None: "nlp self = None \<Longrightarrow> sa_sentiment_score (analyze_sentiment self text) = 0"
  by (simp add: analyze_sentiment_def)

lemma analyze_sentiment_range:
  "- 1 \<le> sa_sentiment_score (analyze_sentiment self text) \<and>
   sa_sentiment_score (analyze_sentiment self text) \<le> 1"
  by (cases "nlp self") (simp_all add: analyze_sentiment_def Let_def)

lemma calculate_final_scores_sentiment:
  "calculate_final_scores b sa st ca ai qt = Inr fs \<Longrightarrow> sentiment_score fs = sa_sentiment_score sa"
  by (auto simp: calculate_final_scores_def Let_def split: sum.splits if_splits)

lemma score_response_sentiment:
  assumes "score_response self svc text question qtype = Inr r"
  shows "sentiment_score (scores r) = 0 \<or>
         sentiment_score (scores r) = sa_sentiment_score (analyze_sentiment self (preprocess_text text))"
  using assms
  by (auto simp: score_response_def create_empty_score_def Let_def
        dest: calculate_final_scores_sentiment split: if_splits sum.splits)

text \<open>
  C4 (as amended). The scorer is constructed with \<^verbatim>\<open>self.nlp = None\<close>, and without a
  tokenizer \<^verbatim>\<open>_analyze_sentiment\<close> returns the neutral result: the sentiment score of every
  evaluation is 0, whatever words the text contains. The word-list heuristic is
  computed only by a scorer that has a tokenizer; its value then lies in \<open>[-1, 1]\<close>.
\<close>

theorem stored_sentiment_is_neutral:
  assumes "NLPScorer_init key = Inr self"
      and "score_response self svc text question qtype = Inr r"
  shows "sentiment_score (scores r) = 0 \<and>
         - 1 \<le> sa_sentiment_score (analyze_sentiment (self\<lparr>nlp := Some tokenizer\<rparr>) text) \<and>
         sa_sentiment_score (analyze_sentiment (self\<lparr>nlp := Some tokenizer\<rparr>) text) \<le> 1"
  using score_response_sentiment [OF assms(2)]
    analyze_sentiment_None [OF NLPScorer_init_nlp [OF assms(1)]]
    analyze_sentiment_range [of "self\<lparr>nlp := Some tokenizer\<rparr>" "text"]
  by auto

theorem stored_sentiment_is_neutral_witness:
  "NLPScorer_init ''sk-test'' = Inr NLPScorer_new \<and>
   (case score_response NLPScorer_new sample_services ''good great excellent''
           ''How did it go?'' ''behavioral'' of
      Inl e \<Rightarrow> False
    | Inr r \<Rightarrow>
        sentiment_score (scores r) = 0 \<and>
        sa_sentiment_score
          (analyze_sentiment (NLPScorer_new\<lparr>nlp := Some word_tokenizer\<rparr>)
             ''good great excellent'') = 1)"
proof -
  have s: "NLPScorer_init ''sk-test'' = Inr NLPScorer_new"
    by (simp add: NLPScorer_init_def)
  have "case score_response NLPScorer_new sample_services ''good great excellent''
          ''How did it go?'' ''behavioral'' of Inl e \<Rightarrow> False | Inr r \<Rightarrow> True"
    by code_simp
  then obtain r where r: "score_response NLPScorer_new sample_services
      ''good great excellent'' ''How did it go?'' ''behavioral'' = Inr r"
    by (auto split: sum.splits)
  have t: "sa_sentiment_score
             (analyze_sentiment (NLPScorer_new\<lparr>nlp := Some word_tokenizer\<rparr>)
                ''good great excellent'') = 1"
    by code_simp
  show ?thesis
    using stored_sentiment_is_neutral [OF s r, of word_tokenizer] by (simp add: s r t)
qed

text \<open>C4 as stated fails: for the text \<open>good great excellent\<close>, which has three positive
  and no negative words, the stored sentiment is 0, not the heuristic's value 1.\<close>

theorem positive_words_sentiment_counterexample:
  "spec_sentiment ''good great excellent'' = 1 \<and>
   (case NLPScorer_init ''sk-test'' of
      Inl e \<Rightarrow> False
    | Inr self \<Rightarrow>
        (case score_response self sample_services ''good great excellent'' ''How did it go?''
                ''behavioral'' of
           Inl e \<Rightarrow> False
         | Inr r \<Rightarrow>
             \<not> 0 < sentiment_score (scores r) \<and>
             sentiment_score (scores r) \<noteq> spec_sentiment ''good great excellent''))"
  by code_simp

section \<open>The judgment handed to the aggregator\<close>

lemma validate_scores_other:
  "validate_scores keys result = Inr r \<Longrightarrow> k \<notin> set keys \<Longrightarrow> r k = result k"
proof (induction keys arbitrary: result)
  case Nil
  then show ?case by simp
next
  case (Cons key keys)
  then show ?case by (auto split: option.splits sum.splits)
qed

lemma validate_scores_ok:
  "validate_scores keys result = Inr r \<Longrightarrow> k \<in> set keys \<Longrightarrow> score_entry_ok (r k)"
proof (induction keys arbitrary: result)
  case Nil
  then show ?case by simp
next
  case (Cons key keys)
  show ?case
  proof (cases "k \<in> set keys")
    case True
    with Cons show ?thesis by (auto split: option.splits sum.splits)
  next
    case False
    with Cons.prems have k: "k = key" by simp
    show ?thesis
    proof (cases "result key")
      case None
      with Cons.prems have "validate_scores keys result = Inr r" by simp
      from validate_scores_other [OF this False] None k show ?thesis
        by (simp add: score_entry_ok_def)
    next
      case (Some v)
      with Cons.prems obtain n where n: "py_int v = Inr n"
        and r: "validate_scores keys (result(key \<mapsto> PInt (max 0 (min 100 n)))) = Inr r"
        by (auto split: sum.splits)
      from validate_scores_other [OF r False] k show ?thesis
        by (simp add: score_entry_ok_def)
    qed
  qed
qed

lemma fallback_entries:
  "get_fallback_scores text qtype ''content_relevance''
     = Some (PInt (min 85 (max 40 (int (length (split_ws text)) * 2))))"
  "get_fallback_scores text qtype ''communication_clarity''
     = Some (PInt (min 85 (max 40 (int (length (split_ws text)) * 2)) - 5))"
  "get_fallback_scores text qtype ''structure_organization''
     = Some (PInt (min 85 (max 40 (int (length (split_ws text)) * 2)) - 10))"
  "get_fallback_scores text qtype ''technical_accuracy''
     = Some (if qtype = ''technical''
             then PInt (min 85 (max 40 (int (length (split_ws text)) * 2))) else PNone)"
  by (simp_all add: get_fallback_scores_def Let_def)

lemma get_fallback_scores_ok:
  "k \<in> set validated_keys \<Longrightarrow> score_entry_ok (get_fallback_scores text qtype k)"
  unfolding validated_keys_def
  by (auto simp: fallback_entries score_entry_ok_def)

lemma parse_ai_response_ok:
  assumes "k \<in> set validated_keys"
  shows "score_entry_ok (parse_ai_response m k)"
proof (cases m)
  case NoMatch
  then show ?thesis using assms by (simp add: parse_ai_response_def get_fallback_scores_ok)
next
  case LoadsError
  then show ?thesis using assms by (simp add: parse_ai_response_def get_fallback_scores_ok)
next
  case (Loaded result)
  show ?thesis
  proof (cases "validate_scores validated_keys result")
    case (Inl e)
    with Loaded show ?thesis using assms
      by (simp add: parse_ai_response_def get_fallback_scores_ok)
  next
    case (Inr validated)
    with Loaded have "parse_ai_response m = validated" by (simp add: parse_ai_response_def)
    with validate_scores_ok [OF Inr assms] show ?thesis by simp
  qed
qed

lemma get_ai_scores_ok:
  "k \<in> set validated_keys \<Longrightarrow> score_entry_ok (get_ai_scores reply text qtype k)"
  by (cases reply) (simp_all add: get_ai_scores_def get_fallback_scores_ok parse_ai_response_ok)

lemma score_entry_ok_default:
  assumes "score_entry_ok (ai k)"
  obtains n where "dict_get_default ai k (PInt 70) = PInt n" and "0 \<le> n" and "n \<le> 100"
proof (cases "ai k")
  case None
  then have "dict_get_default ai k (PInt 70) = PInt 70" by (simp add: dict_get_default_def)
  then show ?thesis using that by simp
next
  case (Some v)
  with assms obtain n where "v = PInt n" "0 \<le> n" "n \<le> 100"
    by (cases v) (auto simp: score_entry_ok_def)
  with Some show ?thesis using that by (simp add: dict_get_default_def)
qed

section \<open>Score aggregator\<close>



lemma py_trunc_range: "0 \<le> r \<Longrightarrow> r \<le> 100 \<Longrightarrow> 0 \<le> py_trunc r \<and> py_trunc r \<le> 100"
  by (simp add: py_trunc_def floor_le_iff le_floor_iff)

text \<open>The aggregator on a judgment whose three validated entries are integers.\<close>

lemma calculate_final_scores_validated:
  assumes "dict_get_default ai ''content_relevance'' (PInt 70) = PInt c"
      and "dict_get_default ai ''communication_clarity'' (PInt 70) = PInt cl"
      and "dict_get_default ai ''structure_organization'' (PInt 70) = PInt s"
      and "calculate_final_scores b sa st ca ai qtype = Inr fs"
  obtains total_sum technical_int where
    "py_sum (mean_components (PInt c)
        (max 0 (of_int cl - min 20 (bm_filler_words_ratio b * 100)))
        (max 0 (min 100 (of_int s + (of_int (st_structure_score st) - 70) * (3 / 10))))
        (dict_get ai ''technical_accuracy'') qtype) = Inr total_sum"
    "(if truthy (dict_get ai ''technical_accuracy'')
      then map_sum id Some (py_int (dict_get ai ''technical_accuracy''))
      else Inr None) = Inr technical_int"
    "overall_score fs = py_trunc (total_sum / of_nat (length (mean_components (PInt c)
        (max 0 (of_int cl - min 20 (bm_filler_words_ratio b * 100)))
        (max 0 (min 100 (of_int s + (of_int (st_structure_score st) - 70) * (3 / 10))))
        (dict_get ai ''technical_accuracy'') qtype)))"
    "content_relevance_score fs = c"
    "communication_clarity_score fs
       = py_trunc (max 0 (of_int cl - min 20 (bm_filler_words_ratio b * 100)))"
    "structure_organization_score fs
       = py_trunc (max 0 (min 100 (of_int s + (of_int (st_structure_score st) - 70) * (3 / 10))))"
    "technical_accuracy_score fs = technical_int"
  using assms(4) unfolding calculate_final_scores_def Let_def assms(1,2,3)
  by (auto split: sum.splits)

lemma strip_Nil: "strip [] = []"
  by (simp add: strip_def)

lemma score_response_nonblank:
  assumes "strip text \<noteq> []"
      and "score_response self svc text question qtype = Inr r"
  shows "calculate_final_scores
           (analyze_basic_metrics self (preprocess_text text))
           (analyze_sentiment self (preprocess_text text))
           (analyze_structure (preprocess_text text))
           (analyze_confidence self (preprocess_text text))
           (get_ai_scores (scoring_reply svc) (preprocess_text text) qtype) qtype
         = Inr (scores r)"
proof -
  from assms(1) have "text \<noteq> []" using strip_Nil by auto
  with assms show ?thesis
    unfolding score_response_def Let_def by (auto split: sum.splits)
qed

lemma filler_ratio_nonneg: "0 \<le> bm_filler_words_ratio (analyze_basic_metrics self t)"
  by (simp add: analyze_basic_metrics_def Let_def)

lemma make_score_copies:
  assumes "make_score response_id r = Inr row"
  shows "rs_overall_score row = overall_score (scores r)"
    and "rs_content_relevance_score row = content_relevance_score (scores r)"
    and "rs_communication_clarity_score row = communication_clarity_score (scores r)"
    and "rs_structure_organization_score row = structure_organization_score (scores r)"
    and "rs_technical_accuracy_score row = technical_accuracy_score (scores r)"
    and "rs_sentiment_score row = sentiment_score (scores r)"
    and "rs_response_id row = response_id"
    and "rs_strengths row = dict_get_default (feedback r) ''strengths'' (PList [])"
  using assms unfolding make_score_def by (auto split: sum.splits)

text \<open>The judgment's three validated entries, as the aggregator reads them.\<close>

lemma judgment_entries:
  obtains c cl s where
    "dict_get_default (get_ai_scores reply text qtype) ''content_relevance'' (PInt 70) = PInt c"
    "0 \<le> c" "c \<le> 100"
    "dict_get_default (get_ai_scores reply text qtype) ''communication_clarity'' (PInt 70) = PInt cl"
    "0 \<le> cl" "cl \<le> 100"
    "dict_get_default (get_ai_scores reply text qtype) ''structure_organization'' (PInt 70) = PInt s"
    "0 \<le> s" "s \<le> 100"
proof -
  have k: "''content_relevance'' \<in> set validated_keys"
    "''communication_clarity'' \<in> set validated_keys"
    "''structure_organization'' \<in> set validated_keys"
    by (simp_all add: validated_keys_def)
  obtain c where c: "dict_get_default (get_ai_scores reply text qtype) ''content_relevance'' (PInt 70) = PInt c"
    "0 \<le> c" "c \<le> 100"
    using score_entry_ok_default [of "get_ai_scores reply text qtype" "''content_relevance''"]
      get_ai_scores_ok [OF k(1), of reply "text" qtype] by metis
  obtain cl where cl: "dict_get_default (get_ai_scores reply text qtype) ''communication_clarity'' (PInt 70) = PInt cl"
    "0 \<le> cl" "cl \<le> 100"
    using score_entry_ok_default [of "get_ai_scores reply text qtype" "''communication_clarity''"]
      get_ai_scores_ok [OF k(2), of reply "text" qtype] by metis
  obtain s where s: "dict_get_default (get_ai_scores reply text qtype) ''structure_organization'' (PInt 70) = PInt s"
    "0 \<le> s" "s \<le> 100"
    using score_entry_ok_default [of "get_ai_scores reply text qtype" "''structure_organization''"]
      get_ai_scores_ok [OF k(3), of reply "text" qtype] by metis
  from c cl s that show ?thesis by blast
qed









section \<open>Range of the stored scores\<close>

text \<open>Content, clarity and structure of every scoring result lie in \<open>[0, 100]\<close>.\<close>

lemma validated_components_in_range:
  assumes "score_response self svc text question qtype = Inr r"
  shows "0 \<le> content_relevance_score (scores r) \<and> content_relevance_score (scores r) \<le> 100 \<and>
         0 \<le> communication_clarity_score (scores r) \<and>
         communication_clarity_score (scores r) \<le> 100 \<and>
         0 \<le> structure_organization_score (scores r) \<and>
         structure_organization_score (scores r) \<le> 100"
proof (cases "strip text = []")
  case True
  with assms have "r = create_empty_score" by (simp add: score_response_def)
  then show ?thesis by (simp add: create_empty_score_def)
next
  case False
  let ?p = "preprocess_text text"
  let ?ai = "get_ai_scores (scoring_reply svc) ?p qtype"
  let ?b = "analyze_basic_metrics self ?p"
  obtain c cl s where e:
    "dict_get_default ?ai ''content_relevance'' (PInt 70) = PInt c"
    "dict_get_default ?ai ''communication_clarity'' (PInt 70) = PInt cl"
    "dict_get_default ?ai ''structure_organization'' (PInt 70) = PInt s"
    and b: "0 \<le> c" "c \<le> 100" "cl \<le> 100"
    using judgment_entries by metis
  note calc = score_response_nonblank [OF False assms]
  have content: "content_relevance_score (scores r) = c"
    and clarity: "communication_clarity_score (scores r)
       = py_trunc (max 0 (of_int cl - min 20 (bm_filler_words_ratio ?b * 100)))"
    and struct: "structure_organization_score (scores r)
       = py_trunc (max 0 (min 100 (of_int s
            + (of_int (st_structure_score (analyze_structure ?p)) - 70) * (3 / 10))))"
    using calculate_final_scores_validated [OF e calc] by metis+
  have "(of_int cl :: rat) \<le> 100" using b(3) by (simp add: of_int_le_iff [of cl 100, simplified])
  moreover have "0 \<le> min 20 (bm_filler_words_ratio ?b * 100)"
    using filler_ratio_nonneg [of self ?p] by simp
  ultimately have "max 0 (of_int cl - min 20 (bm_filler_words_ratio ?b * 100)) \<le> 100"
    by simp
  then have c2: "0 \<le> communication_clarity_score (scores r) \<and>
                 communication_clarity_score (scores r) \<le> 100"
    unfolding clarity by (intro py_trunc_range) simp_all
  have c3: "0 \<le> structure_organization_score (scores r) \<and>
            structure_organization_score (scores r) \<le> 100"
    unfolding struct by (intro py_trunc_range) simp_all
  from content b c2 c3 show ?thesis by simp
qed


section \<open>Lifecycle of a response\<close>















section \<open>Blank transcription\<close>






section \<open>Status of a submitted response\<close>








section \<open>Strengths\<close>

text \<open>\<^verbatim>\<open>FeedbackGenerator._identify_strengths\<close> always returns at least one strength\<dots>\<close>

lemma take_five_nonempty: "take 5 (if xs = [] then [a] @ ys else xs) \<noteq> []"
  by (cases xs) simp_all

lemma identify_strengths_nonempty: "identify_strengths score text qtype \<noteq> []"
  unfolding identify_strengths_def Let_def by (rule take_five_nonempty)

lemma identify_strengths_at_most_five: "length (identify_strengths score text qtype) \<le> 5"
  unfolding identify_strengths_def Let_def length_take by (rule min.cobounded2)

text \<open>\<dots> but no scoring result has an entry \<^verbatim>\<open>strengths\<close> in its feedback, so the row
  built from it is given the default, the empty list.\<close>

lemma score_response_feedback_keys:
  assumes "score_response self svc text question qtype = Inr r"
  shows "feedback r ''strengths'' = None"
proof (cases "text = [] \<or> strip text = []")
  case True
  with assms have "r = create_empty_score" by (simp add: score_response_def)
  then show ?thesis by (simp add: create_empty_score_def)
next
  case False
  with assms obtain fs b where "feedback r = generate_feedback (feedback_reply svc) fs b"
    unfolding score_response_def Let_def by (auto split: sum.splits)
  then show ?thesis by (simp add: generate_feedback_def Let_def)
qed

lemma stored_strengths_empty:
  assumes "score_response self svc text question qtype = Inr r"
      and "make_score rid r = Inr row"
  shows "rs_strengths row = PList []"
  using make_score_copies(8) [OF assms(2)] score_response_feedback_keys [OF assms(1)]
  by (simp add: dict_get_default_def)


end
